theory Spec2Isabelle
  imports Main
begin

section \<open>The label exporter \<^verbatim>\<open>scripts/github-org-labels-to-csv.js\<close>\<close>

text \<open>
  The script lists the repositories of an organisation, fetches the labels of each one,
  and writes \<^verbatim>\<open>labels.csv\<close>. Its effects (console output, network requests, the pause,
  the file write, \<^verbatim>\<open>process.exit\<close>) are recorded in order in a trace; a thrown
  \<^verbatim>\<open>Error\<close> (a rejected promise) is a value.
\<close>

subsection \<open>Values\<close>

text \<open>A JavaScript \<^verbatim>\<open>Error\<close>; only its \<^verbatim>\<open>message\<close> is read by the script.\<close>

datatype js_error = Error (message: string)

text \<open>
  The values a label's \<^verbatim>\<open>description\<close> can have after \<^verbatim>\<open>response.json()\<close>:
  the property may be absent (\<^verbatim>\<open>undefined\<close>), \<^verbatim>\<open>null\<close>, a boolean, a number or a
  string. Numbers are the integers; nested arrays and objects are not modelled.
\<close>

datatype js_value = JUndefined | JNull | JBoolean bool | JNumber int | JString string

text \<open>A repository object: only \<^verbatim>\<open>name\<close> is read.\<close>

record repo =
  name :: string

text \<open>A label object: \<^verbatim>\<open>name\<close>, \<^verbatim>\<open>description\<close> and \<^verbatim>\<open>color\<close> are read.\<close>

record label =
  name :: string
  description :: js_value
  color :: string

text \<open>
  What \<^verbatim>\<open>fetch\<close> resolves with: \<^verbatim>\<open>ok\<close>, \<^verbatim>\<open>statusText\<close> and the result of
  \<^verbatim>\<open>json()\<close>, which either rejects or yields the decoded payload.
\<close>

record 'a response =
  ok :: bool
  statusText :: string
  json :: "js_error + 'a"

text \<open>
  The surroundings of one run: \<^verbatim>\<open>process.argv\<close>, the platform's answer to a request
  for each URL (\<open>Inl\<close> when \<^verbatim>\<open>fetch\<close> itself rejects), and whether
  \<^verbatim>\<open>fs.writeFileSync\<close> throws for a path.
\<close>

record env =
  argv :: "string list"
  fetch_repos :: "string \<Rightarrow> js_error + repo list response"
  fetch_labels :: "string \<Rightarrow> js_error + label list response"
  write_error :: "string \<Rightarrow> js_error option"

datatype event =
    ConsoleLog string
  | ConsoleError string
  | Fetch string
  | SetTimeout nat
  | WriteFileSync string string
  | ProcessExit nat

record state =
  trace :: "event list"
  files :: "string \<Rightarrow> string option"

definition emit :: "event \<Rightarrow> state \<Rightarrow> state" where
  "emit e st = st\<lparr>trace := trace st @ [e]\<rparr>"

text \<open>How an \<^verbatim>\<open>async\<close> function ends: it returns, it throws, or the process has exited.\<close>

datatype 'a outcome = Returned 'a | Thrown js_error | Exited nat

subsection \<open>JavaScript primitives the script uses\<close>

text \<open>\<^verbatim>\<open>xs[i]\<close> is \<^verbatim>\<open>undefined\<close> out of range.\<close>

definition index :: "'a list \<Rightarrow> nat \<Rightarrow> 'a option" where
  "index xs i = (if i < length xs then Some (xs ! i) else None)"

text \<open>\<^verbatim>\<open>!orgName\<close> for a value that is \<^verbatim>\<open>undefined\<close> or a string.\<close>

fun not_string :: "string option \<Rightarrow> bool" where
  "not_string None = True"
| "not_string (Some s) = (s = [])"

fun truthy :: "js_value \<Rightarrow> bool" where
  "truthy JUndefined = False"
| "truthy JNull = False"
| "truthy (JBoolean b) = b"
| "truthy (JNumber n) = (n \<noteq> 0)"
| "truthy (JString s) = (s \<noteq> [])"

text \<open>\<^verbatim>\<open>a || b\<close>\<close>

definition js_or :: "js_value \<Rightarrow> js_value \<Rightarrow> js_value" where
  "js_or a b = (if truthy a then a else b)"

definition digit :: "nat \<Rightarrow> char" where
  "digit d = char_of (48 + d)"

fun decimal :: "nat \<Rightarrow> string" where
  "decimal n = (if n < 10 then [digit n] else decimal (n div 10) @ [digit (n mod 10)])"

text \<open>
  The string a value becomes inside a template literal. For a number this is its decimal
  notation, which is what JavaScript prints for integers below \<open>10\<^sup>2\<^sup>1\<close> in magnitude;
  from there on JavaScript prints an exponent (\<^verbatim>\<open>1e+21\<close>), which this function does not.
\<close>

fun to_string :: "js_value \<Rightarrow> string" where
  "to_string JUndefined = ''undefined''"
| "to_string JNull = ''null''"
| "to_string (JBoolean b) = (if b then ''true'' else ''false'')"
| "to_string (JNumber n) = (if n < 0 then ''-'' @ decimal (nat (- n)) else decimal (nat n))"
| "to_string (JString s) = s"

text \<open>\<^verbatim>\<open>Array.prototype.join\<close> on an array of strings.\<close>

fun join :: "string list \<Rightarrow> string \<Rightarrow> string" where
  "join [] sep = []"
| "join [x] sep = x"
| "join (x # y # ys) sep = x @ sep @ join (y # ys) sep"

subsection \<open>The script\<close>

definition GITHUB_API_URL :: string where
  "GITHUB_API_URL = ''https://api.github.com''"

definition getAllReposForOrg :: "env \<Rightarrow> string \<Rightarrow> state \<Rightarrow> (js_error + repo list) \<times> state" where
  "getAllReposForOrg e orgName st =
    (let url = GITHUB_API_URL @ ''/orgs/'' @ orgName @ ''/repos'';
         st1 = emit (Fetch url) st
     in case fetch_repos e url of
          Inl err \<Rightarrow> (Inl err, st1)
        | Inr response \<Rightarrow>
            if \<not> ok response
            then (Inl (Error (''Failed to fetch repositories for organization '' @ orgName
                              @ '': '' @ statusText response)), st1)
            else (json response, st1))"

definition getRepoLabels :: "env \<Rightarrow> string \<Rightarrow> repo \<Rightarrow> state \<Rightarrow> (js_error + label list) \<times> state" where
  "getRepoLabels e orgName r st =
    (let url = GITHUB_API_URL @ ''/repos/'' @ orgName @ ''/'' @ repo.name r @ ''/labels'';
         st1 = emit (Fetch url) st
     in case fetch_labels e url of
          Inl err \<Rightarrow> (Inl err, st1)
        | Inr response \<Rightarrow>
            if \<not> ok response
            then (Inl (Error (''Failed to fetch labels for '' @ repo.name r
                              @ '': '' @ statusText response)), st1)
            else (json response, st1))"

text \<open>An element of \<^verbatim>\<open>allLabels\<close>: the array \<^verbatim>\<open>[repo, label, description, color]\<close>.\<close>

type_synonym row = "string \<times> string \<times> js_value \<times> string"

text \<open>The callback of \<^verbatim>\<open>labels.forEach\<close>: the row pushed for one label.\<close>

definition push_row :: "repo \<Rightarrow> label \<Rightarrow> row" where
  "push_row r l = (repo.name r, label.name l, js_or (description l) (JString []), color l)"

text \<open>One turn of the \<^verbatim>\<open>for (const repo of repos)\<close> loop.\<close>

definition loop_body :: "env \<Rightarrow> string \<Rightarrow> repo \<Rightarrow> row list \<times> state \<Rightarrow> row list \<times> state" where
  "loop_body e orgName r s =
    (case s of (allLabels, st) \<Rightarrow>
      let st1 = emit (ConsoleLog (''Fetching labels for '' @ repo.name r @ ''...'')) st
      in case getRepoLabels e orgName r st1 of
           (Inr labels, st2) \<Rightarrow>
             (allLabels @ map (push_row r) labels, emit (SetTimeout 1000) st2)
         | (Inl err, st2) \<Rightarrow>
             (allLabels,
              emit (SetTimeout 1000)
                (emit (ConsoleError (''Error fetching labels for '' @ repo.name r @ '': ''
                                     @ message err)) st2)))"

fun for_repos :: "env \<Rightarrow> string \<Rightarrow> repo list \<Rightarrow> row list \<times> state \<Rightarrow> row list \<times> state" where
  "for_repos e orgName [] s = s"
| "for_repos e orgName (r # rs) s = for_repos e orgName rs (loop_body e orgName r s)"

text \<open>The template literal of one CSV line.\<close>

fun render_row :: "row \<Rightarrow> string" where
  "render_row (r, l, d, c) =
    ''\"'' @ r @ ''\",\"'' @ l @ ''\",\"'' @ to_string d @ ''\",\"#'' @ c @ ''\"''"

definition csv :: "row list \<Rightarrow> string" where
  "csv allLabels = ''Repo,Label,Description,Color'' @ [CHR 0x0A]
                   @ join (map render_row allLabels) [CHR 0x0A]"

definition writeFileSync :: "env \<Rightarrow> string \<Rightarrow> string \<Rightarrow> state \<Rightarrow> (js_error + unit) \<times> state" where
  "writeFileSync e path data st =
    (case write_error e path of
       Some err \<Rightarrow> (Inl err, st)
     | None \<Rightarrow> (Inr (), emit (WriteFileSync path data) (st\<lparr>files := (files st)(path \<mapsto> data)\<rparr>)))"

definition main :: "env \<Rightarrow> state \<Rightarrow> unit outcome \<times> state" where
  "main e st =
    (let orgName = index (argv e) 2
     in if not_string orgName
        then (Exited 1,
              emit (ProcessExit 1)
                (emit (ConsoleError ''Please provide a GitHub organization name as an argument.'') st))
        else case getAllReposForOrg e (the orgName) st of
               (Inl err, st1) \<Rightarrow> (Thrown err, st1)
             | (Inr repos, st1) \<Rightarrow>
                 (case for_repos e (the orgName) repos ([], st1) of
                    (allLabels, st2) \<Rightarrow>
                      (case writeFileSync e ''labels.csv'' (csv allLabels) st2 of
                         (Inl err, st3) \<Rightarrow> (Thrown err, st3)
                       | (Inr u, st3) \<Rightarrow>
                           (Returned (), emit (ConsoleLog ''CSV file created: labels.csv'') st3))))"

text \<open>
  The module's last statement, \<^verbatim>\<open>main().catch(...)\<close>, and the exit code the process
  ends with: the argument of \<^verbatim>\<open>process.exit\<close> when it was called, and 0 when the
  event loop drains, also after the handler of \<^verbatim>\<open>catch\<close> has run.
\<close>

definition script :: "env \<Rightarrow> state \<Rightarrow> nat \<times> state" where
  "script e st =
    (case main e st of
       (Exited n, st1) \<Rightarrow> (n, st1)
     | (Returned u, st1) \<Rightarrow> (0, st1)
     | (Thrown err, st1) \<Rightarrow>
         (0, emit (ConsoleError (''Failed to execute script: '' @ message err)) st1))"

subsection \<open>What one request and one turn of the loop contribute\<close>

text \<open>
  The network functions read the state only to extend the trace, so what a call resolves
  or rejects with is read off a run from the empty state.
\<close>

definition no_state :: state where
  "no_state = \<lparr>trace = [], files = Map.empty\<rparr>"

definition repos_url :: "string \<Rightarrow> string" where
  "repos_url orgName = GITHUB_API_URL @ ''/orgs/'' @ orgName @ ''/repos''"

definition labels_url :: "string \<Rightarrow> repo \<Rightarrow> string" where
  "labels_url orgName r = GITHUB_API_URL @ ''/repos/'' @ orgName @ ''/'' @ repo.name r @ ''/labels''"

text \<open>The result of \<^verbatim>\<open>await getAllReposForOrg(orgName)\<close>.\<close>

definition repos_call :: "env \<Rightarrow> string \<Rightarrow> js_error + repo list" where
  "repos_call e orgName = fst (getAllReposForOrg e orgName no_state)"

text \<open>The result of \<^verbatim>\<open>await getRepoLabels(orgName, repo)\<close>.\<close>

definition label_call :: "env \<Rightarrow> string \<Rightarrow> repo \<Rightarrow> js_error + label list" where
  "label_call e orgName r = fst (getRepoLabels e orgName r no_state)"

text \<open>The rows one repository adds to \<^verbatim>\<open>allLabels\<close>, and the events of its turn.\<close>

definition repo_rows :: "env \<Rightarrow> string \<Rightarrow> repo \<Rightarrow> row list" where
  "repo_rows e orgName r =
    (case label_call e orgName r of Inr labels \<Rightarrow> map (push_row r) labels | Inl err \<Rightarrow> [])"

definition repo_events :: "env \<Rightarrow> string \<Rightarrow> repo \<Rightarrow> event list" where
  "repo_events e orgName r = trace (snd (loop_body e orgName r ([], no_state)))"

text \<open>Whether the label call of a repository succeeded, and the labels it returned.\<close>

definition succeeded :: "env \<Rightarrow> string \<Rightarrow> repo \<Rightarrow> bool" where
  "succeeded e orgName r = (case label_call e orgName r of Inr labels \<Rightarrow> True | Inl err \<Rightarrow> False)"

definition labels_of :: "env \<Rightarrow> string \<Rightarrow> repo \<Rightarrow> label list" where
  "labels_of e orgName r = (case label_call e orgName r of Inr labels \<Rightarrow> labels | Inl err \<Rightarrow> [])"

subsection \<open>Example runs\<close>

text \<open>
  Organisation \<^verbatim>\<open>acme\<close> with repositories \<^verbatim>\<open>core\<close> and \<^verbatim>\<open>web\<close>: \<^verbatim>\<open>core\<close> has one
  label, the label request for \<^verbatim>\<open>web\<close> is answered with 404.
\<close>

definition acme :: env where
  "acme =
    \<lparr>argv = [''node'', ''github-org-labels-to-csv.js'', ''acme''],
     fetch_repos = (\<lambda>url.
       if url = ''https://api.github.com/orgs/acme/repos''
       then Inr \<lparr>ok = True, statusText = ''OK'',
                 json = Inr [\<lparr>repo.name = ''core''\<rparr>, \<lparr>repo.name = ''web''\<rparr>]\<rparr>
       else Inr \<lparr>ok = False, statusText = ''Not Found'', json = Inr []\<rparr>),
     fetch_labels = (\<lambda>url.
       if url = ''https://api.github.com/repos/acme/core/labels''
       then Inr \<lparr>ok = True, statusText = ''OK'',
                 json = Inr [\<lparr>label.name = ''bug'', description = JString [], color = ''d73a4a''\<rparr>]\<rparr>
       else Inr \<lparr>ok = False, statusText = ''Not Found'', json = Inr []\<rparr>),
     write_error = (\<lambda>path. None)\<rparr>"

definition acme_no_argument :: env where
  "acme_no_argument = acme\<lparr>argv := [''node'', ''github-org-labels-to-csv.js'']\<rparr>"

definition acme_listing_fails :: env where
  "acme_listing_fails =
     acme\<lparr>fetch_repos := (\<lambda>url. Inr \<lparr>ok = False, statusText = ''Not Found'', json = Inr []\<rparr>)\<rparr>"

text \<open>The same organisation when the listing is empty.\<close>

definition acme_empty :: env where
  "acme_empty =
     acme\<lparr>fetch_repos := (\<lambda>url. Inr \<lparr>ok = True, statusText = ''OK'', json = Inr []\<rparr>)\<rparr>"

text \<open>
  A listing and a label list that are in no alphabetical order, with a description that
  is \<^verbatim>\<open>null\<close> and one that is absent.
\<close>

definition acme_unsorted :: env where
  "acme_unsorted =
    \<lparr>argv = [''node'', ''github-org-labels-to-csv.js'', ''acme''],
     fetch_repos = (\<lambda>url.
       Inr \<lparr>ok = True, statusText = ''OK'',
            json = Inr [\<lparr>repo.name = ''web''\<rparr>, \<lparr>repo.name = ''core''\<rparr>]\<rparr>),
     fetch_labels = (\<lambda>url.
       if url = ''https://api.github.com/repos/acme/web/labels''
       then Inr \<lparr>ok = True, statusText = ''OK'',
                 json = Inr [\<lparr>label.name = ''zeta'', description = JString ''last'', color = ''000000''\<rparr>,
                             \<lparr>label.name = ''alpha'', description = JNull, color = ''ff00aa''\<rparr>]\<rparr>
       else Inr \<lparr>ok = True, statusText = ''OK'',
                 json = Inr [\<lparr>label.name = ''bug'', description = JUndefined, color = ''d73a4a''\<rparr>]\<rparr>),
     write_error = (\<lambda>path. None)\<rparr>"

text \<open>
  Three repositories: \<^verbatim>\<open>web\<close> with two labels, \<^verbatim>\<open>docs\<close> whose label request is
  answered with 403, and \<^verbatim>\<open>core\<close> with one label that has a numeric description.
\<close>

definition acme_mixed :: env where
  "acme_mixed =
    \<lparr>argv = [''node'', ''github-org-labels-to-csv.js'', ''acme''],
     fetch_repos = (\<lambda>url.
       Inr \<lparr>ok = True, statusText = ''OK'',
            json = Inr [\<lparr>repo.name = ''web''\<rparr>, \<lparr>repo.name = ''docs''\<rparr>, \<lparr>repo.name = ''core''\<rparr>]\<rparr>),
     fetch_labels = (\<lambda>url.
       if url = ''https://api.github.com/repos/acme/web/labels''
       then Inr \<lparr>ok = True, statusText = ''OK'',
                 json = Inr [\<lparr>label.name = ''zeta'', description = JString ''last'', color = ''000000''\<rparr>,
                             \<lparr>label.name = ''alpha'', description = JNull, color = ''ff00aa''\<rparr>]\<rparr>
       else if url = ''https://api.github.com/repos/acme/core/labels''
       then Inr \<lparr>ok = True, statusText = ''OK'',
                 json = Inr [\<lparr>label.name = ''bug'', description = JNumber 7, color = ''d73a4a''\<rparr>]\<rparr>
       else Inr \<lparr>ok = False, statusText = ''Forbidden'', json = Inr []\<rparr>),
     write_error = (\<lambda>path. None)\<rparr>"

section \<open>Properties\<close>

subsection \<open>The run, step by step\<close>

lemma getAllReposForOrg_eq:
  "getAllReposForOrg e orgName st = (repos_call e orgName, emit (Fetch (repos_url orgName)) st)"
  by (simp add: getAllReposForOrg_def repos_call_def repos_url_def Let_def split: sum.splits)

lemma getRepoLabels_eq:
  "getRepoLabels e orgName r st = (label_call e orgName r, emit (Fetch (labels_url orgName r)) st)"
  by (simp add: getRepoLabels_def label_call_def labels_url_def Let_def split: sum.splits)

lemma loop_body_eq:
  "loop_body e orgName r (acc, st) =
     (acc @ repo_rows e orgName r, st\<lparr>trace := trace st @ repo_events e orgName r\<rparr>)"
  by (simp add: loop_body_def repo_rows_def repo_events_def getRepoLabels_eq emit_def no_state_def
           split: sum.splits)

lemma for_repos_eq:
  "for_repos e orgName rs (acc, st) =
     (acc @ concat (map (repo_rows e orgName) rs),
      st\<lparr>trace := trace st @ concat (map (repo_events e orgName) rs)\<rparr>)"
  by (induction rs arbitrary: acc st) (simp_all add: loop_body_eq)

lemma repo_events_eq:
  "repo_events e orgName r =
     ConsoleLog (''Fetching labels for '' @ repo.name r @ ''...'')
     # Fetch (labels_url orgName r)
     # (case label_call e orgName r of
          Inr labels \<Rightarrow> []
        | Inl err \<Rightarrow> [ConsoleError (''Error fetching labels for '' @ repo.name r @ '': '' @ message err)])
     @ [SetTimeout 1000]"
  by (simp add: repo_events_def loop_body_def getRepoLabels_eq emit_def no_state_def split: sum.splits)

lemma main_listed:
  assumes "index (argv e) 2 = Some orgName" and "orgName \<noteq> []"
    and "repos_call e orgName = Inr repos"
  shows "main e st =
    (case writeFileSync e ''labels.csv'' (csv (concat (map (repo_rows e orgName) repos)))
            (st\<lparr>trace := trace st @ Fetch (repos_url orgName)
                              # concat (map (repo_events e orgName) repos)\<rparr>) of
       (Inl err, st3) \<Rightarrow> (Thrown err, st3)
     | (Inr u, st3) \<Rightarrow> (Returned (), emit (ConsoleLog ''CSV file created: labels.csv'') st3))"
  using assms by (simp add: main_def getAllReposForOrg_eq for_repos_eq emit_def)

lemma script_written:
  assumes "index (argv e) 2 = Some orgName" and "orgName \<noteq> []"
    and "repos_call e orgName = Inr repos"
    and "write_error e ''labels.csv'' = None"
  shows "script e st =
    (0, st\<lparr>trace := trace st @ Fetch (repos_url orgName)
                      # concat (map (repo_events e orgName) repos)
                      @ [WriteFileSync ''labels.csv'' (csv (concat (map (repo_rows e orgName) repos))),
                         ConsoleLog ''CSV file created: labels.csv''],
            files := (files st)(''labels.csv'' \<mapsto> csv (concat (map (repo_rows e orgName) repos)))\<rparr>)"
  using assms(4) by (simp add: script_def main_listed [OF assms(1-3)] writeFileSync_def emit_def)

text \<open>
  The exit code depends on the argument alone: 1 when \<^verbatim>\<open>process.argv[2]\<close> is missing or
  empty, 0 in every other run.
\<close>

lemma exit_code_script:
  "fst (script e st) = (if not_string (index (argv e) 2) then 1 else 0)"
  by (simp add: script_def main_def Let_def split: prod.splits sum.splits outcome.splits)

subsection \<open>The example organisation\<close>

lemma acme_argv: "index (argv acme) 2 = Some ''acme''"
  by (simp add: index_def acme_def)

lemma acme_repos: "repos_call acme ''acme'' = Inr [\<lparr>repo.name = ''core''\<rparr>, \<lparr>repo.name = ''web''\<rparr>]"
  by (simp add: repos_call_def getAllReposForOrg_def acme_def GITHUB_API_URL_def Let_def)

lemma acme_core: "label_call acme ''acme'' \<lparr>repo.name = ''core''\<rparr>
    = Inr [\<lparr>label.name = ''bug'', description = JString [], color = ''d73a4a''\<rparr>]"
  by (simp add: label_call_def getRepoLabels_def acme_def GITHUB_API_URL_def Let_def)

lemma acme_web: "label_call acme ''acme'' \<lparr>repo.name = ''web''\<rparr>
    = Inl (Error ''Failed to fetch labels for web: Not Found'')"
  by (simp add: label_call_def getRepoLabels_def acme_def GITHUB_API_URL_def Let_def)

lemma acme_write: "write_error acme ''labels.csv'' = None"
  by (simp add: acme_def)

lemma mixed_argv: "index (argv acme_mixed) 2 = Some ''acme''"
  by (simp add: index_def acme_mixed_def)

lemma mixed_repos:
  "repos_call acme_mixed ''acme''
     = Inr [\<lparr>repo.name = ''web''\<rparr>, \<lparr>repo.name = ''docs''\<rparr>, \<lparr>repo.name = ''core''\<rparr>]"
  by (simp add: repos_call_def getAllReposForOrg_def acme_mixed_def Let_def)

lemma mixed_write: "write_error acme_mixed ''labels.csv'' = None"
  by (simp add: acme_mixed_def)

lemma mixed_web: "label_call acme_mixed ''acme'' \<lparr>repo.name = ''web''\<rparr>
    = Inr [\<lparr>label.name = ''zeta'', description = JString ''last'', color = ''000000''\<rparr>,
           \<lparr>label.name = ''alpha'', description = JNull, color = ''ff00aa''\<rparr>]"
  by (simp add: label_call_def getRepoLabels_def acme_mixed_def GITHUB_API_URL_def Let_def)

lemma mixed_docs: "label_call acme_mixed ''acme'' \<lparr>repo.name = ''docs''\<rparr>
    = Inl (Error ''Failed to fetch labels for docs: Forbidden'')"
  by (simp add: label_call_def getRepoLabels_def acme_mixed_def GITHUB_API_URL_def Let_def)

lemma mixed_core: "label_call acme_mixed ''acme'' \<lparr>repo.name = ''core''\<rparr>
    = Inr [\<lparr>label.name = ''bug'', description = JNumber 7, color = ''d73a4a''\<rparr>]"
  by (simp add: label_call_def getRepoLabels_def acme_mixed_def GITHUB_API_URL_def Let_def)

lemma digit_7: "digit 7 = CHR ''7''"
  unfolding digit_def by code_simp

subsection \<open>Exit codes\<close>

text \<open>
  C1 (exit codes). The claim asks for exit code 1 when the repository listing fails. In the
  run below the listing request is answered with 404: the handler of
  \<^verbatim>\<open>main().catch\<close> prints the error and the process ends with exit code 0.
\<close>

theorem C1_listing_failure_exits_0:
  "fst (script acme_listing_fails no_state) = 0
   \<and> trace (snd (script acme_listing_fails no_state)) =
       [Fetch ''https://api.github.com/orgs/acme/repos'',
        ConsoleError ''Failed to execute script: Failed to fetch repositories for organization acme: Not Found'']"
  by (simp add: script_def main_def index_def getAllReposForOrg_def emit_def no_state_def
        acme_listing_fails_def acme_def GITHUB_API_URL_def Let_def)

text \<open>
  C6 (missing argument). When \<^verbatim>\<open>process.argv[2]\<close> is absent, the run consists of one
  message on standard error and \<^verbatim>\<open>process.exit(1)\<close>: the exit code is 1 and no request
  is made.
\<close>

theorem C6_missing_argument:
  assumes "index (argv e) 2 = None"
  shows "script e st =
    (1, st\<lparr>trace := trace st
              @ [ConsoleError ''Please provide a GitHub organization name as an argument.'',
                 ProcessExit 1]\<rparr>)"
  using assms by (simp add: script_def main_def emit_def)

theorem C6_missing_argument_witness:
  "index (argv acme_no_argument) 2 = None
   \<and> script acme_no_argument no_state =
       (1, \<lparr>trace = [ConsoleError ''Please provide a GitHub organization name as an argument.'',
                      ProcessExit 1],
            files = Map.empty\<rparr>)"
proof -
  have h: "index (argv acme_no_argument) 2 = None"
    by (simp add: index_def acme_no_argument_def acme_def)
  show ?thesis
    using h C6_missing_argument [OF h, of no_state] by (simp add: no_state_def)
qed

subsection \<open>Failure of the listing\<close>

text \<open>
  C3 (no output on a listing failure). When the listing request is answered with a
  non-success status, the run is the request followed by one message on standard error:
  the files are as before and no \<^verbatim>\<open>writeFileSync\<close> happens.
\<close>

theorem C3_listing_failure_writes_nothing:
  assumes "index (argv e) 2 = Some orgName" and "orgName \<noteq> []"
    and "fetch_repos e (GITHUB_API_URL @ ''/orgs/'' @ orgName @ ''/repos'') = Inr response"
    and "\<not> ok response"
  shows "snd (script e st) =
    st\<lparr>trace := trace st
          @ [Fetch (GITHUB_API_URL @ ''/orgs/'' @ orgName @ ''/repos''),
             ConsoleError (''Failed to execute script: Failed to fetch repositories for organization ''
                           @ orgName @ '': '' @ statusText response)]\<rparr>
    \<and> files (snd (script e st)) = files st
    \<and> (\<forall>path data. WriteFileSync path data \<in> set (trace (snd (script e st)))
          \<longrightarrow> WriteFileSync path data \<in> set (trace st))"
  using assms by (simp add: script_def main_def getAllReposForOrg_def emit_def Let_def)

theorem C3_listing_failure_writes_nothing_witness:
  "index (argv acme_listing_fails) 2 = Some ''acme''
   \<and> fetch_repos acme_listing_fails (GITHUB_API_URL @ ''/orgs/'' @ ''acme'' @ ''/repos'')
       = Inr \<lparr>ok = False, statusText = ''Not Found'', json = Inr []\<rparr>
   \<and> files (snd (script acme_listing_fails no_state)) ''labels.csv'' = None
   \<and> trace (snd (script acme_listing_fails no_state)) =
       [Fetch ''https://api.github.com/orgs/acme/repos'',
        ConsoleError ''Failed to execute script: Failed to fetch repositories for organization acme: Not Found'']"
proof -
  have h1: "index (argv acme_listing_fails) 2 = Some ''acme''"
    by (simp add: index_def acme_listing_fails_def acme_def)
  have h2: "''acme'' \<noteq> []" by simp
  have h3: "fetch_repos acme_listing_fails (GITHUB_API_URL @ ''/orgs/'' @ ''acme'' @ ''/repos'')
            = Inr \<lparr>ok = False, statusText = ''Not Found'', json = Inr []\<rparr>"
    by (simp add: acme_listing_fails_def)
  have h4: "\<not> ok \<lparr>ok = False, statusText = ''Not Found'', json = (Inr [] :: js_error + repo list)\<rparr>"
    by simp
  show ?thesis
    using h1 h3 C3_listing_failure_writes_nothing [OF h1 h2 h3 h4, of no_state]
    by (simp add: no_state_def GITHUB_API_URL_def)
qed

subsection \<open>Failure of one label call\<close>

lemma repo_rows_local:
  "fetch_labels e' (labels_url orgName x) = fetch_labels e (labels_url orgName x)
   \<Longrightarrow> repo_rows e' orgName x = repo_rows e orgName x"
  by (simp add: repo_rows_def label_call_def getRepoLabels_def labels_url_def Let_def)

text \<open>
  C2 (a failed label call is local). When the label call of one repository \<open>r\<close> of the
  listing fails, \<open>r\<close> adds no row, its turn prints a message on standard error that
  names \<open>r\<close> and carries the error's message, the loop goes on with the repositories
  after \<open>r\<close>, and the file holds the rows of the other repositories. The rows of a
  repository depend only on the answer to its own label request.
\<close>

theorem C2_failed_repository_is_skipped:
  assumes "index (argv e) 2 = Some orgName" and "orgName \<noteq> []"
    and "repos_call e orgName = Inr (before @ r # after)"
    and "label_call e orgName r = Inl err"
    and "write_error e ''labels.csv'' = None"
  shows "repo_rows e orgName r = []
    \<and> script e st =
       (0, st\<lparr>trace := trace st @ Fetch (repos_url orgName)
                 # concat (map (repo_events e orgName) before)
                 @ [ConsoleLog (''Fetching labels for '' @ repo.name r @ ''...''),
                    Fetch (labels_url orgName r),
                    ConsoleError (''Error fetching labels for '' @ repo.name r @ '': '' @ message err),
                    SetTimeout 1000]
                 @ concat (map (repo_events e orgName) after)
                 @ [WriteFileSync ''labels.csv''
                      (csv (concat (map (repo_rows e orgName) (before @ after)))),
                    ConsoleLog ''CSV file created: labels.csv''],
               files := (files st)(''labels.csv'' \<mapsto>
                      csv (concat (map (repo_rows e orgName) (before @ after))))\<rparr>)
    \<and> (\<forall>e' x. fetch_labels e' (labels_url orgName x) = fetch_labels e (labels_url orgName x)
          \<longrightarrow> repo_rows e' orgName x = repo_rows e orgName x)"
proof -
  have rows: "repo_rows e orgName r = []"
    using assms(4) by (simp add: repo_rows_def)
  have events: "repo_events e orgName r =
      [ConsoleLog (''Fetching labels for '' @ repo.name r @ ''...''),
       Fetch (labels_url orgName r),
       ConsoleError (''Error fetching labels for '' @ repo.name r @ '': '' @ message err),
       SetTimeout 1000]"
    using assms(4) by (simp add: repo_events_eq)
  have run: "script e st =
       (0, st\<lparr>trace := trace st @ Fetch (repos_url orgName)
                 # concat (map (repo_events e orgName) (before @ r # after))
                 @ [WriteFileSync ''labels.csv''
                      (csv (concat (map (repo_rows e orgName) (before @ r # after)))),
                    ConsoleLog ''CSV file created: labels.csv''],
               files := (files st)(''labels.csv'' \<mapsto>
                      csv (concat (map (repo_rows e orgName) (before @ r # after))))\<rparr>)"
    by (rule script_written [OF assms(1-3) assms(5)])
  have run': "script e st =
       (0, st\<lparr>trace := trace st @ Fetch (repos_url orgName)
                 # concat (map (repo_events e orgName) before)
                 @ [ConsoleLog (''Fetching labels for '' @ repo.name r @ ''...''),
                    Fetch (labels_url orgName r),
                    ConsoleError (''Error fetching labels for '' @ repo.name r @ '': '' @ message err),
                    SetTimeout 1000]
                 @ concat (map (repo_events e orgName) after)
                 @ [WriteFileSync ''labels.csv''
                      (csv (concat (map (repo_rows e orgName) (before @ after)))),
                    ConsoleLog ''CSV file created: labels.csv''],
               files := (files st)(''labels.csv'' \<mapsto>
                      csv (concat (map (repo_rows e orgName) (before @ after))))\<rparr>)"
    using run by (simp add: rows events)
  have local: "\<forall>e' x. fetch_labels e' (labels_url orgName x) = fetch_labels e (labels_url orgName x)
          \<longrightarrow> repo_rows e' orgName x = repo_rows e orgName x"
    by (blast intro: repo_rows_local)
  from rows run' local show ?thesis by blast
qed

theorem C2_failed_repository_is_skipped_witness:
  "index (argv acme) 2 = Some ''acme''
   \<and> repos_call acme ''acme'' = Inr ([\<lparr>repo.name = ''core''\<rparr>] @ \<lparr>repo.name = ''web''\<rparr> # [])
   \<and> label_call acme ''acme'' \<lparr>repo.name = ''web''\<rparr>
       = Inl (Error ''Failed to fetch labels for web: Not Found'')
   \<and> write_error acme ''labels.csv'' = None
   \<and> script acme no_state =
       (0, \<lparr>trace =
              [Fetch ''https://api.github.com/orgs/acme/repos'',
               ConsoleLog ''Fetching labels for core...'',
               Fetch ''https://api.github.com/repos/acme/core/labels'',
               SetTimeout 1000,
               ConsoleLog ''Fetching labels for web...'',
               Fetch ''https://api.github.com/repos/acme/web/labels'',
               ConsoleError ''Error fetching labels for web: Failed to fetch labels for web: Not Found'',
               SetTimeout 1000,
               WriteFileSync ''labels.csv''
                 (''Repo,Label,Description,Color'' @ [CHR 0x0A] @ ''\"core\",\"bug\",\"\",\"#d73a4a\"''),
               ConsoleLog ''CSV file created: labels.csv''],
            files = [''labels.csv'' \<mapsto>
                 ''Repo,Label,Description,Color'' @ [CHR 0x0A] @ ''\"core\",\"bug\",\"\",\"#d73a4a\"'']\<rparr>)"
proof -
  have h2: "''acme'' \<noteq> []" by simp
  have h3: "repos_call acme ''acme'' = Inr ([\<lparr>repo.name = ''core''\<rparr>] @ \<lparr>repo.name = ''web''\<rparr> # [])"
    by (simp add: acme_repos)
  show ?thesis
    using acme_argv h3 acme_web acme_write
      C2_failed_repository_is_skipped [OF acme_argv h2 h3 acme_web acme_write, of no_state]
    by (simp add: repo_events_eq repo_rows_def acme_core push_row_def js_or_def csv_def
          repos_url_def labels_url_def GITHUB_API_URL_def no_state_def)
qed

subsection \<open>The rows of the file\<close>

lemma concat_repo_rows:
  "concat (map (repo_rows e orgName) rs)
   = concat (map (\<lambda>r. map (push_row r) (labels_of e orgName r)) (filter (succeeded e orgName) rs))"
proof (induction rs)
  case Nil
  show ?case by simp
next
  case (Cons r rs)
  have "repo_rows e orgName r
        = (if succeeded e orgName r then map (push_row r) (labels_of e orgName r) else [])"
    by (simp add: repo_rows_def succeeded_def labels_of_def split: sum.splits)
  with Cons show ?case by simp
qed

lemma render_push_row:
  "render_row (push_row r l)
     = ''\"'' @ repo.name r @ ''\",\"'' @ label.name l @ ''\",\"''
       @ (if truthy (description l) then to_string (description l) else [])
       @ ''\",\"#'' @ color l @ ''\"''"
  by (simp add: push_row_def js_or_def)

text \<open>
  C4 (row count). In a run that writes the file, the file is the header line followed by
  one line for each label returned by a label call that succeeded, and by nothing else:
  the number of data lines is the sum of the label counts of the repositories whose label
  call succeeded.
\<close>

theorem C4_row_count:
  assumes "index (argv e) 2 = Some orgName" and "orgName \<noteq> []"
    and "repos_call e orgName = Inr repos"
    and "write_error e ''labels.csv'' = None"
  shows "files (snd (script e st)) ''labels.csv'' =
      Some (''Repo,Label,Description,Color'' @ [CHR 0x0A]
            @ join (concat (map (\<lambda>r. map (\<lambda>l.
                        ''\"'' @ repo.name r @ ''\",\"'' @ label.name l @ ''\",\"''
                        @ (if truthy (description l) then to_string (description l) else [])
                        @ ''\",\"#'' @ color l @ ''\"'')
                      (labels_of e orgName r))
                   (filter (succeeded e orgName) repos)))
                 [CHR 0x0A])
    \<and> length (concat (map (\<lambda>r. map (\<lambda>l.
                        ''\"'' @ repo.name r @ ''\",\"'' @ label.name l @ ''\",\"''
                        @ (if truthy (description l) then to_string (description l) else [])
                        @ ''\",\"#'' @ color l @ ''\"'')
                      (labels_of e orgName r))
                   (filter (succeeded e orgName) repos)))
        = sum_list (map (\<lambda>r. length (labels_of e orgName r)) (filter (succeeded e orgName) repos))"
proof -
  have written: "files (snd (script e st)) ''labels.csv''
           = Some (csv (concat (map (repo_rows e orgName) repos)))"
    by (simp add: script_written [OF assms])
  have lines: "map render_row (concat (map (repo_rows e orgName) repos))
      = concat (map (\<lambda>r. map (\<lambda>l.
                        ''\"'' @ repo.name r @ ''\",\"'' @ label.name l @ ''\",\"''
                        @ (if truthy (description l) then to_string (description l) else [])
                        @ ''\",\"#'' @ color l @ ''\"'')
                      (labels_of e orgName r))
                   (filter (succeeded e orgName) repos))"
    unfolding concat_repo_rows map_concat
    by (simp add: comp_def render_push_row)
  have "files (snd (script e st)) ''labels.csv'' =
      Some (''Repo,Label,Description,Color'' @ [CHR 0x0A]
            @ join (map render_row (concat (map (repo_rows e orgName) repos))) [CHR 0x0A])"
    using written by (simp add: csv_def)
  then show ?thesis
    unfolding lines by (simp add: length_concat comp_def)
qed

theorem C4_row_count_witness:
  "index (argv acme_mixed) 2 = Some ''acme''
   \<and> repos_call acme_mixed ''acme''
       = Inr [\<lparr>repo.name = ''web''\<rparr>, \<lparr>repo.name = ''docs''\<rparr>, \<lparr>repo.name = ''core''\<rparr>]
   \<and> write_error acme_mixed ''labels.csv'' = None
   \<and> filter (succeeded acme_mixed ''acme'')
         [\<lparr>repo.name = ''web''\<rparr>, \<lparr>repo.name = ''docs''\<rparr>, \<lparr>repo.name = ''core''\<rparr>]
       = [\<lparr>repo.name = ''web''\<rparr>, \<lparr>repo.name = ''core''\<rparr>]
   \<and> sum_list (map (\<lambda>r. length (labels_of acme_mixed ''acme'' r))
         (filter (succeeded acme_mixed ''acme'')
            [\<lparr>repo.name = ''web''\<rparr>, \<lparr>repo.name = ''docs''\<rparr>, \<lparr>repo.name = ''core''\<rparr>])) = 3
   \<and> files (snd (script acme_mixed no_state)) ''labels.csv'' =
       Some (''Repo,Label,Description,Color'' @ [CHR 0x0A]
             @ join [''\"web\",\"zeta\",\"last\",\"#000000\"'',
                     ''\"web\",\"alpha\",\"\",\"#ff00aa\"'',
                     ''\"core\",\"bug\",\"7\",\"#d73a4a\"''] [CHR 0x0A])
   \<and> files (snd (script acme_mixed no_state)) ''labels.csv'' =
       Some (''Repo,Label,Description,Color'' @ [CHR 0x0A]
             @ ''\"web\",\"zeta\",\"last\",\"#000000\"'' @ [CHR 0x0A]
             @ ''\"web\",\"alpha\",\"\",\"#ff00aa\"'' @ [CHR 0x0A]
             @ ''\"core\",\"bug\",\"7\",\"#d73a4a\"'')"
proof -
  have h2: "''acme'' \<noteq> []" by simp
  show ?thesis
    using mixed_argv mixed_repos mixed_write
      C4_row_count [OF mixed_argv h2 mixed_repos mixed_write, of no_state]
    by (simp add: succeeded_def labels_of_def mixed_web mixed_docs mixed_core digit_7)
qed

text \<open>
  C7 (row order). The lines after the header are the rows of the repositories in the
  order of the listing, and for each repository the rows of its labels in the order the
  label call returned them.
\<close>

theorem C7_row_order:
  assumes "index (argv e) 2 = Some orgName" and "orgName \<noteq> []"
    and "repos_call e orgName = Inr repos"
    and "write_error e ''labels.csv'' = None"
  shows "files (snd (script e st)) ''labels.csv'' =
     Some (''Repo,Label,Description,Color'' @ [CHR 0x0A]
           @ join (map render_row
                    (concat (map (\<lambda>r. case label_call e orgName r of
                                        Inr labels \<Rightarrow> map (push_row r) labels
                                      | Inl err \<Rightarrow> [])
                                 repos)))
                  [CHR 0x0A])"
proof -
  have "repo_rows e orgName = (\<lambda>r. case label_call e orgName r of
                                        Inr labels \<Rightarrow> map (push_row r) labels
                                      | Inl err \<Rightarrow> [])"
    by (rule ext) (simp add: repo_rows_def)
  then show ?thesis
    by (simp add: script_written [OF assms] csv_def)
qed

theorem C7_row_order_witness:
  "index (argv acme_unsorted) 2 = Some ''acme''
   \<and> repos_call acme_unsorted ''acme'' = Inr [\<lparr>repo.name = ''web''\<rparr>, \<lparr>repo.name = ''core''\<rparr>]
   \<and> write_error acme_unsorted ''labels.csv'' = None
   \<and> files (snd (script acme_unsorted no_state)) ''labels.csv'' =
       Some (''Repo,Label,Description,Color'' @ [CHR 0x0A]
             @ ''\"web\",\"zeta\",\"last\",\"#000000\"'' @ [CHR 0x0A]
             @ ''\"web\",\"alpha\",\"\",\"#ff00aa\"'' @ [CHR 0x0A]
             @ ''\"core\",\"bug\",\"\",\"#d73a4a\"'')"
proof -
  have h1: "index (argv acme_unsorted) 2 = Some ''acme''"
    by (simp add: index_def acme_unsorted_def)
  have h2: "''acme'' \<noteq> []" by simp
  have h3: "repos_call acme_unsorted ''acme'' = Inr [\<lparr>repo.name = ''web''\<rparr>, \<lparr>repo.name = ''core''\<rparr>]"
    by (simp add: repos_call_def getAllReposForOrg_def acme_unsorted_def Let_def)
  have h4: "write_error acme_unsorted ''labels.csv'' = None"
    by (simp add: acme_unsorted_def)
  have web: "label_call acme_unsorted ''acme'' \<lparr>repo.name = ''web''\<rparr>
    = Inr [\<lparr>label.name = ''zeta'', description = JString ''last'', color = ''000000''\<rparr>,
           \<lparr>label.name = ''alpha'', description = JNull, color = ''ff00aa''\<rparr>]"
    by (simp add: label_call_def getRepoLabels_def acme_unsorted_def GITHUB_API_URL_def Let_def)
  have core: "label_call acme_unsorted ''acme'' \<lparr>repo.name = ''core''\<rparr>
    = Inr [\<lparr>label.name = ''bug'', description = JUndefined, color = ''d73a4a''\<rparr>]"
    by (simp add: label_call_def getRepoLabels_def acme_unsorted_def GITHUB_API_URL_def Let_def)
  show ?thesis
    using h1 h3 h4 C7_row_order [OF h1 h2 h3 h4, of no_state]
    by (simp add: web core push_row_def js_or_def)
qed

subsection \<open>The line of one label\<close>

text \<open>
  C5 (row rendering). The line of a label is the repository name, the label name, the
  description and the colour after \<open>#\<close>, each between double quotes and separated by
  commas, with the strings copied as they are; an absent description gives \<open>""\<close>, and
  colour \<open>ff00aa\<close> gives \<open>"#ff00aa"\<close>.
\<close>

theorem C5_row_rendering:
  "render_row (push_row r l)
     = ''\"'' @ repo.name r @ ''\",\"'' @ label.name l @ ''\",\"''
       @ (if truthy (description l) then to_string (description l) else [])
       @ ''\",\"#'' @ color l @ ''\"''
   \<and> (description l = JUndefined \<longrightarrow>
        render_row (push_row r l)
          = ''\"'' @ repo.name r @ ''\",\"'' @ label.name l @ ''\",\"\",\"#'' @ color l @ ''\"'')
   \<and> (description l = JString d \<longrightarrow>
        render_row (push_row r l)
          = ''\"'' @ repo.name r @ ''\",\"'' @ label.name l @ ''\",\"'' @ d @ ''\",\"#'' @ color l @ ''\"'')
   \<and> (color l = ''ff00aa'' \<longrightarrow>
        (\<exists>fields. render_row (push_row r l) = fields @ '',\"#ff00aa\"''))
   \<and> csv (map (push_row r) labels)
       = ''Repo,Label,Description,Color'' @ [CHR 0x0A]
         @ join (map (\<lambda>l. render_row (push_row r l)) labels) [CHR 0x0A]"
proof -
  have "\<exists>fields. ''\"'' @ repo.name r @ ''\",\"'' @ label.name l @ ''\",\"''
       @ (if truthy (description l) then to_string (description l) else [])
       @ ''\",\"#ff00aa\"'' = fields @ '',\"#ff00aa\"''"
    by (rule exI [of _ "''\"'' @ repo.name r @ ''\",\"'' @ label.name l @ ''\",\"''
       @ (if truthy (description l) then to_string (description l) else []) @ ''\"''"]) simp
  then show ?thesis
    by (simp add: push_row_def js_or_def csv_def comp_def)
qed

theorem C5_row_rendering_witness:
  "description \<lparr>label.name = ''a\"b,c'', description = JUndefined, color = ''ff00aa''\<rparr> = JUndefined
   \<and> color \<lparr>label.name = ''a\"b,c'', description = JUndefined, color = ''ff00aa''\<rparr> = ''ff00aa''
   \<and> render_row (push_row \<lparr>repo.name = ''core''\<rparr>
                   \<lparr>label.name = ''a\"b,c'', description = JUndefined, color = ''ff00aa''\<rparr>)
       = ''\"core\",\"a\"b,c\",\"\",\"#ff00aa\"''"
  using C5_row_rendering
          [of "\<lparr>repo.name = ''core''\<rparr>"
              "\<lparr>label.name = ''a\"b,c'', description = JUndefined, color = ''ff00aa''\<rparr>"]
  by simp

lemma falsy_values:
  "(\<not> truthy d) = (d \<in> {JUndefined, JNull, JString [], JBoolean False, JNumber 0})"
  by (cases d) auto

text \<open>
  C9 (falsy descriptions). The description is replaced by the empty string exactly when
  it is falsy: absent, \<^verbatim>\<open>null\<close>, the empty string, \<^verbatim>\<open>false\<close> or 0. The field is
  then rendered as \<open>""\<close>.
\<close>

theorem C9_falsy_description_is_empty:
  "(\<not> truthy d \<longleftrightarrow> d \<in> {JUndefined, JNull, JString [], JBoolean False, JNumber 0})
   \<and> (\<not> truthy (description l) \<longrightarrow>
        push_row r l = (repo.name r, label.name l, JString [], color l)
        \<and> render_row (push_row r l)
            = ''\"'' @ repo.name r @ ''\",\"'' @ label.name l @ ''\",\"\",\"#'' @ color l @ ''\"'')"
  using falsy_values [of d] by (simp add: push_row_def js_or_def)

theorem C9_falsy_description_is_empty_witness:
  "\<not> truthy (description \<lparr>label.name = ''wontfix'', description = JNumber 0, color = ''ffffff''\<rparr>)
   \<and> \<not> truthy (description \<lparr>label.name = ''wontfix'', description = JBoolean False, color = ''ffffff''\<rparr>)
   \<and> render_row (push_row \<lparr>repo.name = ''core''\<rparr>
                   \<lparr>label.name = ''wontfix'', description = JNumber 0, color = ''ffffff''\<rparr>)
       = ''\"core\",\"wontfix\",\"\",\"#ffffff\"''
   \<and> render_row (push_row \<lparr>repo.name = ''core''\<rparr>
                   \<lparr>label.name = ''wontfix'', description = JBoolean False, color = ''ffffff''\<rparr>)
       = ''\"core\",\"wontfix\",\"\",\"#ffffff\"''"
  using C9_falsy_description_is_empty
          [of "JNumber 0" "\<lparr>label.name = ''wontfix'', description = JNumber 0, color = ''ffffff''\<rparr>"
              "\<lparr>repo.name = ''core''\<rparr>"]
        C9_falsy_description_is_empty
          [of "JBoolean False" "\<lparr>label.name = ''wontfix'', description = JBoolean False, color = ''ffffff''\<rparr>"
              "\<lparr>repo.name = ''core''\<rparr>"]
  by simp

subsection \<open>The pause\<close>

text \<open>
  C8 (pause after each repository). The events of the loop are the events of each
  repository's turn in order, and every turn ends with its only pause,
  \<^verbatim>\<open>setTimeout(resolve, 1000)\<close>, whether the label call succeeded or not.
\<close>

theorem C8_pause_after_each_repository:
  "trace (snd (for_repos e orgName rs (acc, st)))
     = trace st @ concat (map (repo_events e orgName) rs)
   \<and> (\<forall>r. \<exists>work. repo_events e orgName r = work @ [SetTimeout 1000]
                  \<and> (\<forall>n. SetTimeout n \<notin> set work))"
proof -
  have "\<exists>work. repo_events e orgName r = work @ [SetTimeout 1000]
              \<and> (\<forall>n. SetTimeout n \<notin> set work)" for r
  proof (cases "label_call e orgName r")
    case (Inl err)
    then have "repo_events e orgName r =
        [ConsoleLog (''Fetching labels for '' @ repo.name r @ ''...''),
         Fetch (labels_url orgName r),
         ConsoleError (''Error fetching labels for '' @ repo.name r @ '': '' @ message err)]
        @ [SetTimeout 1000]"
      by (simp add: repo_events_eq)
    then show ?thesis by fastforce
  next
    case (Inr labels)
    then have "repo_events e orgName r =
        [ConsoleLog (''Fetching labels for '' @ repo.name r @ ''...''),
         Fetch (labels_url orgName r)]
        @ [SetTimeout 1000]"
      by (simp add: repo_events_eq)
    then show ?thesis by fastforce
  qed
  then show ?thesis by (simp add: for_repos_eq)
qed

theorem C8_pause_after_each_repository_witness:
  "trace (snd (for_repos acme ''acme'' [\<lparr>repo.name = ''core''\<rparr>, \<lparr>repo.name = ''web''\<rparr>] ([], no_state)))
     = [ConsoleLog ''Fetching labels for core...'',
        Fetch ''https://api.github.com/repos/acme/core/labels'',
        SetTimeout 1000,
        ConsoleLog ''Fetching labels for web...'',
        Fetch ''https://api.github.com/repos/acme/web/labels'',
        ConsoleError ''Error fetching labels for web: Failed to fetch labels for web: Not Found'',
        SetTimeout 1000]"
  using C8_pause_after_each_repository
          [of acme "''acme''" "[\<lparr>repo.name = ''core''\<rparr>, \<lparr>repo.name = ''web''\<rparr>]" "[]" no_state]
  by (simp add: repo_events_eq acme_core acme_web labels_url_def GITHUB_API_URL_def no_state_def)

subsection \<open>The end of the file\<close>

lemma last_join:
  "xs \<noteq> [] \<Longrightarrow> last xs \<noteq> [] \<Longrightarrow> join xs sep \<noteq> [] \<and> last (join xs sep) = last (last xs)"
  by (induction xs sep rule: join.induct) simp_all

lemma last_render_row: "render_row row \<noteq> [] \<and> last (render_row row) = CHR 0x22"
  by (cases row) simp

lemma last_csv:
  assumes "rows \<noteq> []"
  shows "last (csv rows) = CHR 0x22"
proof -
  have "map render_row rows \<noteq> []" using assms by simp
  moreover have "last (map render_row rows) = render_row (last rows)"
    using assms by (simp add: last_map)
  ultimately have "join (map render_row rows) [CHR 0x0A] \<noteq> []
      \<and> last (join (map render_row rows) [CHR 0x0A]) = CHR 0x22"
    using last_join [of "map render_row rows" "[CHR 0x0A]"] last_render_row [of "last rows"]
    by simp
  then show ?thesis by (simp add: csv_def)
qed

text \<open>
  C10 (trailing newline). With no row the file is the header and one newline; with at
  least one row the file ends with the closing quote of the last line, not with a newline.
\<close>

theorem C10_trailing_newline:
  assumes "index (argv e) 2 = Some orgName" and "orgName \<noteq> []"
    and "repos_call e orgName = Inr repos"
    and "write_error e ''labels.csv'' = None"
  shows "(concat (map (repo_rows e orgName) repos) = [] \<longrightarrow>
            files (snd (script e st)) ''labels.csv''
              = Some (''Repo,Label,Description,Color'' @ [CHR 0x0A]))
    \<and> (concat (map (repo_rows e orgName) repos) \<noteq> [] \<longrightarrow>
         (\<exists>content. files (snd (script e st)) ''labels.csv'' = Some content
             \<and> last content = CHR 0x22 \<and> last content \<noteq> CHR 0x0A))"
proof -
  have written: "files (snd (script e st)) ''labels.csv''
           = Some (csv (concat (map (repo_rows e orgName) repos)))"
    by (simp add: script_written [OF assms])
  show ?thesis
  proof (cases "concat (map (repo_rows e orgName) repos) = []")
    case True
    with written show ?thesis by (simp add: csv_def)
  next
    case False
    have "last (csv (concat (map (repo_rows e orgName) repos))) = CHR 0x22"
      by (rule last_csv [OF False])
    with written have "\<exists>content. files (snd (script e st)) ''labels.csv'' = Some content
             \<and> last content = CHR 0x22 \<and> last content \<noteq> CHR 0x0A"
      by simp
    with False show ?thesis by blast
  qed
qed

theorem C10_trailing_newline_witness:
  "index (argv acme_empty) 2 = Some ''acme''
   \<and> repos_call acme_empty ''acme'' = Inr []
   \<and> write_error acme_empty ''labels.csv'' = None
   \<and> files (snd (script acme_empty no_state)) ''labels.csv''
       = Some (''Repo,Label,Description,Color'' @ [CHR 0x0A])
   \<and> index (argv acme) 2 = Some ''acme''
   \<and> repos_call acme ''acme'' = Inr [\<lparr>repo.name = ''core''\<rparr>, \<lparr>repo.name = ''web''\<rparr>]
   \<and> write_error acme ''labels.csv'' = None
   \<and> concat (map (repo_rows acme ''acme'') [\<lparr>repo.name = ''core''\<rparr>, \<lparr>repo.name = ''web''\<rparr>]) \<noteq> []
   \<and> (\<exists>content. files (snd (script acme no_state)) ''labels.csv'' = Some content
         \<and> last content = CHR 0x22 \<and> last content \<noteq> CHR 0x0A)"
proof -
  have h2: "''acme'' \<noteq> []" by simp
  have e1: "index (argv acme_empty) 2 = Some ''acme''"
    by (simp add: index_def acme_empty_def acme_def)
  have e3: "repos_call acme_empty ''acme'' = Inr []"
    by (simp add: repos_call_def getAllReposForOrg_def acme_empty_def Let_def)
  have e4: "write_error acme_empty ''labels.csv'' = None"
    by (simp add: acme_empty_def acme_def)
  have rows: "concat (map (repo_rows acme ''acme'') [\<lparr>repo.name = ''core''\<rparr>, \<lparr>repo.name = ''web''\<rparr>]) \<noteq> []"
    by (simp add: repo_rows_def acme_core)
  show ?thesis
    using e1 e3 e4 acme_argv acme_repos acme_write rows
      C10_trailing_newline [OF e1 h2 e3 e4, of no_state]
      C10_trailing_newline [OF acme_argv h2 acme_repos acme_write, of no_state]
    by simp
qed

end
